theory Spec2Isabelle
  imports Complex_Main "HOL-Library.AList"
begin

section \<open>Errors as values\<close>

text \<open>
  The module under study is \<^verbatim>\<open>torchdpf/models/se2_baseline.py\<close>: three network
  components of a differentiable particle filter and an empty container class. Every
  exception that the Python code or the tensor library can raise on the paths modelled
  here is a value of \<open>error\<close>; a computation that may raise returns \<open>error + 'a\<close>.
\<close>

datatype error =
    ValueError string
  | AttributeError string
  | TypeError string
  | RuntimeError string
  | IndexError string

definition and_then :: "error + 'a \<Rightarrow> ('a \<Rightarrow> error + 'b) \<Rightarrow> error + 'b" where
  "and_then r f = (case r of Inl e \<Rightarrow> Inl e | Inr v \<Rightarrow> f v)"

text \<open>A loop over a list that stops at the first exception.\<close>

fun traverse :: "('a \<Rightarrow> error + 'b) \<Rightarrow> 'a list \<Rightarrow> error + 'b list" where
  "traverse f [] = Inr []"
| "traverse f (x # xs) =
     (case f x of
        Inl e \<Rightarrow> Inl e
      | Inr y \<Rightarrow> (case traverse f xs of Inl e \<Rightarrow> Inl e | Inr ys \<Rightarrow> Inr (y # ys)))"

section \<open>Floating-point entries\<close>

text \<open>
  Tensors are nested lists, outermost axis first. An entry is a floating-point value:
  a finite number, one of the two infinities, or not-a-number. The tensors a caller
  passes in and the weights of the layers may hold any of them.

  The number format is a parameter. Its \<open>rounding\<close> takes the exact result of an
  operation on finite operands to the value the format stores: the nearest number it
  has, or an infinity when the result is beyond its range. The special values follow
  IEEE 754. Nothing below fixes the format, so every theorem that takes \<open>rnd\<close> as a
  variable holds for binary32, for binary64 and for exact arithmetic alike. The sign of
  a zero is not tracked: a zero divisor counts as positive zero.
\<close>

datatype fval = Fin real | PInf | NInf | NaN

type_synonym rounding = "real \<Rightarrow> fval"

fun is_finite :: "fval \<Rightarrow> bool" where
  "is_finite (Fin _) = True"
| "is_finite _ = False"

fun fneg :: "fval \<Rightarrow> fval" where
  "fneg (Fin a) = Fin (- a)"
| "fneg PInf = NInf"
| "fneg NInf = PInf"
| "fneg NaN = NaN"

fun fadd :: "rounding \<Rightarrow> fval \<Rightarrow> fval \<Rightarrow> fval" where
  "fadd rnd (Fin a) (Fin b) = rnd (a + b)"
| "fadd rnd NaN _ = NaN"
| "fadd rnd _ NaN = NaN"
| "fadd rnd PInf NInf = NaN"
| "fadd rnd NInf PInf = NaN"
| "fadd rnd PInf _ = PInf"
| "fadd rnd _ PInf = PInf"
| "fadd rnd NInf _ = NInf"
| "fadd rnd _ NInf = NInf"

definition fsub :: "rounding \<Rightarrow> fval \<Rightarrow> fval \<Rightarrow> fval" where
  "fsub rnd x y = fadd rnd x (fneg y)"

text \<open>The infinity of the given sign.\<close>

definition signed_inf :: "bool \<Rightarrow> fval" where
  "signed_inf positive = (if positive then PInf else NInf)"

fun fpositive :: "fval \<Rightarrow> bool" where
  "fpositive (Fin a) = (0 \<le> a)"
| "fpositive PInf = True"
| "fpositive NInf = False"
| "fpositive NaN = True"

fun fmul :: "rounding \<Rightarrow> fval \<Rightarrow> fval \<Rightarrow> fval" where
  "fmul rnd (Fin a) (Fin b) = rnd (a * b)"
| "fmul rnd NaN _ = NaN"
| "fmul rnd _ NaN = NaN"
| "fmul rnd (Fin a) y = (if a = 0 then NaN else signed_inf ((0 < a) = fpositive y))"
| "fmul rnd x (Fin b) = (if b = 0 then NaN else signed_inf (fpositive x = (0 < b)))"
| "fmul rnd x y = signed_inf (fpositive x = fpositive y)"

fun fdiv :: "rounding \<Rightarrow> fval \<Rightarrow> fval \<Rightarrow> fval" where
  "fdiv rnd (Fin a) (Fin b) =
     (if b \<noteq> 0 then rnd (a / b)
      else if a = 0 then NaN
      else signed_inf (0 < a))"
| "fdiv rnd NaN _ = NaN"
| "fdiv rnd _ NaN = NaN"
| "fdiv rnd (Fin a) _ = Fin 0"
| "fdiv rnd x (Fin b) = signed_inf (fpositive x = (0 \<le> b))"
| "fdiv rnd _ _ = NaN"

text \<open>The order of the values that are numbers or infinities; not-a-number compares with nothing.\<close>

fun fle :: "fval \<Rightarrow> fval \<Rightarrow> bool" where
  "fle NaN _ = False"
| "fle _ NaN = False"
| "fle NInf _ = True"
| "fle _ PInf = True"
| "fle (Fin a) (Fin b) = (a \<le> b)"
| "fle _ _ = False"

text \<open>
  What the results below ask of a rounding, each a property of IEEE rounding to
  nearest: it never yields not-a-number, it is monotone, it keeps a number the format
  has, and the format has 0 and 1.
\<close>

definition rounding_ok :: "rounding \<Rightarrow> bool" where
  "rounding_ok rnd \<longleftrightarrow>
     (\<forall>r. rnd r \<noteq> NaN) \<and>
     (\<forall>r s. r \<le> s \<longrightarrow> fle (rnd r) (rnd s)) \<and>
     (\<forall>r a. rnd r = Fin a \<longrightarrow> rnd a = Fin a) \<and>
     rnd 0 = Fin 0 \<and> rnd 1 = Fin 1"

text \<open>Exact arithmetic: every real number is kept.\<close>

definition exact :: rounding where
  "exact r = Fin r"

text \<open>
  A format with the range of IEEE binary32 and no rounding inside it: a result of
  magnitude \<open>2^128 - 2^103\<close> or more becomes an infinity, as it does in binary32 under
  rounding to nearest, and any other result is kept. Where the operands and the exact
  result of an operation are binary32 numbers, or the result overflows, this is what
  binary32 computes.
\<close>

definition range32 :: rounding where
  "range32 r = (if 2 ^ 128 - 2 ^ 103 \<le> \<bar>r\<bar> then signed_inf (0 < r) else Fin r)"

section \<open>Layers of the tensor library\<close>

text \<open>
  \<^verbatim>\<open>nn.Linear\<close>: a weight matrix with one row per output feature and a bias.
  Applied to a vector \<open>x\<close> it returns \<open>W x + b\<close>; a vector whose length is not
  \<open>in_features\<close> raises the library's shape error. On a tensor of higher rank the layer
  acts on the last axis. The sum of products is accumulated from the right with one
  rounding per operation; the library may order and fuse the operations otherwise, and
  no result below depends on the order.
\<close>

record 'a linear =
  in_features :: nat
  out_features :: nat
  weight :: "'a list list"
  bias :: "'a list"

definition dot :: "rounding \<Rightarrow> fval list \<Rightarrow> fval list \<Rightarrow> fval" where
  "dot rnd w x = foldr (fadd rnd) (map2 (fmul rnd) w x) (Fin 0)"

definition Linear_forward :: "rounding \<Rightarrow> fval linear \<Rightarrow> fval list \<Rightarrow> error + fval list" where
  "Linear_forward rnd l x =
     (if length x \<noteq> in_features l
      then Inl (RuntimeError ''mat1 and mat2 shapes cannot be multiplied'')
      else Inr (map2 (\<lambda>w b. fadd rnd (dot rnd w x) b) (weight l) (bias l)))"

definition Linear_forward2 ::
  "rounding \<Rightarrow> fval linear \<Rightarrow> fval list list \<Rightarrow> error + fval list list" where
  "Linear_forward2 rnd l x = traverse (Linear_forward rnd l) x"

definition Linear_forward3 ::
  "rounding \<Rightarrow> fval linear \<Rightarrow> fval list list list \<Rightarrow> error + fval list list list" where
  "Linear_forward3 rnd l x = traverse (Linear_forward2 rnd l) x"

text \<open>
  \<^verbatim>\<open>nn.ReLU\<close>, entry by entry: the maximum with zero, which keeps not-a-number.
\<close>

fun relu :: "fval \<Rightarrow> fval" where
  "relu (Fin a) = Fin (max 0 a)"
| "relu PInf = PInf"
| "relu NInf = Fin 0"
| "relu NaN = NaN"

text \<open>
  \<^verbatim>\<open>nn.Sigmoid\<close>, entry by entry. What the library's logistic function returns for
  a finite entry is a parameter (an approximation of \<open>1 / (1 + exp (- a))\<close> in the
  tensor's format); the infinities go to 1 and 0, and not-a-number stays.
\<close>

fun sigmoid :: "(real \<Rightarrow> fval) \<Rightarrow> fval \<Rightarrow> fval" where
  "sigmoid lg (Fin a) = lg a"
| "sigmoid lg PInf = Fin 1"
| "sigmoid lg NInf = Fin 0"
| "sigmoid lg NaN = NaN"

text \<open>
  A Python number handed to a tensor operation is taken in the tensor's format: a
  finite one is rounded, the others stay.
\<close>

fun cast :: "rounding \<Rightarrow> fval \<Rightarrow> fval" where
  "cast rnd (Fin a) = rnd a"
| "cast rnd x = x"

text \<open>
  The arithmetic the likelihood estimator runs on: the rounding of the tensors' format,
  the rounding of Python's own floating-point numbers, and the library's logistic
  function on a finite entry.
\<close>

record arithmetic =
  tensor_rounding :: rounding
  python_rounding :: rounding
  logistic :: "real \<Rightarrow> fval"

text \<open>
  Both roundings are as above and the logistic function returns a number from 0 to 1.
\<close>

definition arithmetic_ok :: "arithmetic \<Rightarrow> bool" where
  "arithmetic_ok ar \<longleftrightarrow>
     rounding_ok (tensor_rounding ar) \<and> rounding_ok (python_rounding ar) \<and>
     (\<forall>a. \<exists>s. logistic ar a = Fin s \<and> 0 \<le> s \<and> s \<le> 1)"

text \<open>
  For concrete runs: tensors in the format \<open>range32\<close>, Python numbers exact, and the
  logistic function computed exactly and then stored.
\<close>

definition arith32 :: arithmetic where
  "arith32 =
     \<lparr>tensor_rounding = range32, python_rounding = exact,
      logistic = (\<lambda>a. range32 (1 / (1 + exp (- a))))\<rparr>"

text \<open>
  The library's random number generator is the sequence of the numbers it will return;
  a routine that draws \<open>n\<close> numbers takes the first \<open>n\<close> and leaves the rest.
\<close>

type_synonym 'a gen = "nat \<Rightarrow> 'a"

definition draw :: "nat \<Rightarrow> 'a gen \<Rightarrow> 'a list \<times> 'a gen" where
  "draw n g = (map g [0..<n], \<lambda>i. g (i + n))"

fun map_gen :: "('a \<Rightarrow> 'c gen \<Rightarrow> 'b \<times> 'c gen) \<Rightarrow> 'a list \<Rightarrow> 'c gen \<Rightarrow> 'b list \<times> 'c gen" where
  "map_gen f [] g = ([], g)"
| "map_gen f (x # xs) g =
     (let (y, g1) = f x g; (ys, g2) = map_gen f xs g1 in (y # ys, g2))"

section \<open>ObservationalLikelihoodEstimator\<close>

text \<open>
  The state of a module instance that its \<^verbatim>\<open>forward\<close> reads: the mode flag of
  \<^verbatim>\<open>nn.Module\<close> and the attributes assigned in \<^verbatim>\<open>__init__\<close>. The estimator and
  the action sampler both hold three fully-connected layers \<open>fc1\<close>, \<open>fc2\<close>, \<open>fc3\<close>.
  The floor \<open>min_observation_likelihood\<close> is a Python number, not a tensor entry.
\<close>

record nn_Module =
  training :: bool

record 'a fc_stack = nn_Module +
  fc1 :: "'a linear"
  fc2 :: "'a linear"
  fc3 :: "'a linear"

record ObservationalLikelihoodEstimator = "fval fc_stack" +
  min_observation_likelihood :: real

text \<open>
  \<^verbatim>\<open>
  def forward(self, x):
      x = self.relu(self.fc1(x))
      x = self.relu(self.fc2(x))
      x = self.sigmoid(self.fc3(x))
      x = x * (1 - self.min_observation_likelihood) + self.min_observation_likelihood
      return x
  \<close>
  In the last assignment \<open>1 - floor\<close> is computed by Python; the product and the sum are
  two tensor operations, which take each Python number in the tensor's format. Every
  forward takes the generator and returns it with the result, so that a forward which
  draws random numbers and one which does not have the same shape.
\<close>

definition rescale :: "arithmetic \<Rightarrow> real \<Rightarrow> fval \<Rightarrow> fval" where
  "rescale ar m x =
     (let rnd = tensor_rounding ar in
      fadd rnd (fmul rnd x (cast rnd (python_rounding ar (1 - m)))) (rnd m))"

definition ObservationalLikelihoodEstimator_forward ::
  "arithmetic \<Rightarrow> ObservationalLikelihoodEstimator \<Rightarrow> fval list list \<Rightarrow> real gen
     \<Rightarrow> (error + fval list list) \<times> real gen" where
  "ObservationalLikelihoodEstimator_forward ar self x g =
     (and_then (Linear_forward2 (tensor_rounding ar) (fc1 self) x) (\<lambda>x.
      let x = map (map relu) x in
      and_then (Linear_forward2 (tensor_rounding ar) (fc2 self) x) (\<lambda>x.
      let x = map (map relu) x in
      and_then (Linear_forward2 (tensor_rounding ar) (fc3 self) x) (\<lambda>x.
      let x = map (map (sigmoid (logistic ar))) x in
      let x = map (map (rescale ar (min_observation_likelihood self))) x in
      Inr x))), g)"

text \<open>
  The shapes under which the estimator's layers fit each other and its input.
\<close>

definition linear_ok :: "'a linear \<Rightarrow> bool" where
  "linear_ok l \<longleftrightarrow>
     length (weight l) = out_features l \<and> length (bias l) = out_features l \<and>
     list_all (\<lambda>w. length w = in_features l) (weight l)"

definition fc_stack_ok :: "('a, 'b) fc_stack_scheme \<Rightarrow> bool" where
  "fc_stack_ok self \<longleftrightarrow>
     linear_ok (fc1 self) \<and> linear_ok (fc2 self) \<and> linear_ok (fc3 self) \<and>
     out_features (fc1 self) = in_features (fc2 self) \<and>
     out_features (fc2 self) = in_features (fc3 self)"

section \<open>ObservationalEncoder\<close>

text \<open>
  \<^verbatim>\<open>nn.Conv2d\<close>. The padding argument is a number or one of the strings
  \<^verbatim>\<open>'same'\<close> and \<^verbatim>\<open>'valid'\<close>. The library computes \<^verbatim>\<open>'same'\<close> padding for
  stride 1 only and raises on any other stride, in the constructor and in the
  convolution itself.
\<close>

datatype padding = Same | Valid | Pad nat

record 'a conv2d =
  in_channels :: nat
  out_channels :: nat
  kernel_size :: nat
  stride :: nat
  padding :: padding
  conv_weight :: "'a list list list list"
  conv_bias :: "'a list"

definition pad_amount :: "padding \<Rightarrow> nat \<Rightarrow> nat \<times> nat" where
  "pad_amount p k =
     (case p of
        Same \<Rightarrow> ((k - 1) div 2, (k - 1) - (k - 1) div 2)
      | Valid \<Rightarrow> (0, 0)
      | Pad n \<Rightarrow> (n, n))"

definition height :: "'a list list list \<Rightarrow> nat" where
  "height img = (case img of [] \<Rightarrow> 0 | ch # _ \<Rightarrow> length ch)"

definition width :: "'a list list list \<Rightarrow> nat" where
  "width img = (case img of [] \<Rightarrow> 0 | ch # _ \<Rightarrow> (case ch of [] \<Rightarrow> 0 | r # _ \<Rightarrow> length r))"

text \<open>A pixel of the zero-padded channel: zero outside the image.\<close>

definition px :: "fval list list \<Rightarrow> int \<Rightarrow> int \<Rightarrow> fval" where
  "px ch i j =
     (if 0 \<le> i \<and> i < int (length ch) \<and> 0 \<le> j \<and> j < int (length (ch ! nat i))
      then ch ! nat i ! nat j else Fin 0)"

definition Conv2d_forward1 ::
  "rounding \<Rightarrow> fval conv2d \<Rightarrow> fval list list list \<Rightarrow> error + fval list list list" where
  "Conv2d_forward1 rnd l img =
     (let k = kernel_size l; s = stride l; (pl, pr) = pad_amount (padding l) k;
          h = height img; w = width img in
      if padding l = Same \<and> s \<noteq> 1
      then Inl (RuntimeError ''padding same is not supported for strided convolutions'')
      else if s = 0 then Inl (RuntimeError ''non-positive stride is not supported'')
      else if length img \<noteq> in_channels l
      then Inl (RuntimeError ''input channels do not match the weight'')
      else if h + pl + pr < k \<or> w + pl + pr < k
      then Inl (RuntimeError ''kernel size cannot be greater than the padded input size'')
      else Inr
        (map (\<lambda>oc.
           map (\<lambda>i.
             map (\<lambda>j.
               fadd rnd
                 (foldr (fadd rnd) (concat (concat
                   (map (\<lambda>c. map (\<lambda>u. map (\<lambda>v.
                      fmul rnd (conv_weight l ! oc ! c ! u ! v)
                        (px (img ! c) (int (i * s + u) - int pl) (int (j * s + v) - int pl)))
                    [0..<k]) [0..<k]) [0..<length img]))) (Fin 0))
                 (conv_bias l ! oc))
             [0..<(w + pl + pr - k) div s + 1])
           [0..<(h + pl + pr - k) div s + 1])
         [0..<out_channels l]))"

definition Conv2d_forward ::
  "rounding \<Rightarrow> fval conv2d \<Rightarrow> fval list list list list \<Rightarrow> error + fval list list list list" where
  "Conv2d_forward rnd l x = traverse (Conv2d_forward1 rnd l) x"

text \<open>
  \<^verbatim>\<open>nn.Dropout(p)\<close>: the identity in evaluation mode. In training mode the input is
  multiplied by a noise tensor: one number is drawn per entry, and the noise is 0 where
  the number falls below \<open>p\<close> and \<open>1 / (1 - p)\<close> elsewhere (0 everywhere when \<open>p\<close> is 1).
\<close>

definition dropout_noise :: "rounding \<Rightarrow> real \<Rightarrow> real \<Rightarrow> fval" where
  "dropout_noise rnd p u = (if p = 1 \<or> u < p then Fin 0 else rnd (1 / (1 - p)))"

definition dropout_row :: "rounding \<Rightarrow> real \<Rightarrow> fval list \<Rightarrow> real gen \<Rightarrow> fval list \<times> real gen" where
  "dropout_row rnd p row g =
     (let (us, g1) = draw (length row) g
      in (map2 (\<lambda>v u. fmul rnd v (dropout_noise rnd p u)) row us, g1))"

definition Dropout_forward ::
  "rounding \<Rightarrow> bool \<Rightarrow> real \<Rightarrow> fval list list list list \<Rightarrow> real gen
     \<Rightarrow> fval list list list list \<times> real gen" where
  "Dropout_forward rnd train p x g =
     (if train then map_gen (map_gen (map_gen (dropout_row rnd p))) x g else (x, g))"

text \<open>\<^verbatim>\<open>nn.Flatten(start_dim=1)\<close>: every image becomes one row.\<close>

definition Flatten_forward :: "'a list list list list \<Rightarrow> 'a list list" where
  "Flatten_forward x = map (\<lambda>img. concat (concat img)) x"

record ObservationalEncoder = nn_Module +
  conv1 :: "fval conv2d"
  conv2 :: "fval conv2d"
  conv3 :: "fval conv2d"
  dropout :: real
  fc :: "fval linear"

text \<open>
  \<^verbatim>\<open>
  def forward(self, x):
      x = self.relu(self.conv1(x))
      x = self.relu(self.conv2(x))
      x = self.relu(self.conv3(x))
      x = self.dropout(x)
      x = self.flatten(x)
      x = self.relu(self.fc(x))
      return x
  \<close>
\<close>

definition relu4 :: "fval list list list list \<Rightarrow> fval list list list list" where
  "relu4 x = map (map (map (map relu))) x"

definition ObservationalEncoder_forward ::
  "rounding \<Rightarrow> ObservationalEncoder \<Rightarrow> fval list list list list \<Rightarrow> real gen
     \<Rightarrow> (error + fval list list) \<times> real gen" where
  "ObservationalEncoder_forward rnd self x g =
     (case
        and_then (Conv2d_forward rnd (conv1 self) x) (\<lambda>x.
        let x = relu4 x in
        and_then (Conv2d_forward rnd (conv2 self) x) (\<lambda>x.
        let x = relu4 x in
        and_then (Conv2d_forward rnd (conv3 self) x) (\<lambda>x.
        Inr (relu4 x))))
      of
        Inl e \<Rightarrow> (Inl e, g)
      | Inr x \<Rightarrow>
        (let (x, g1) = Dropout_forward rnd (training self) (dropout self) x g;
             x = Flatten_forward x
         in (and_then (Linear_forward2 rnd (fc self) x) (\<lambda>x. Inr (map (map relu) x)), g1)))"

section \<open>ActionSampler\<close>

text \<open>
  Elementwise operations of the tensor library broadcast: along an axis the two sizes
  must agree, or one of them must be 1 and that slice is repeated. A tensor with an
  empty axis is the empty list, which does not record the sizes of its inner axes; a
  shape error that the library would report on those is not represented.
\<close>

definition bcast :: "('a \<Rightarrow> 'b \<Rightarrow> error + 'c) \<Rightarrow> 'a list \<Rightarrow> 'b list \<Rightarrow> error + 'c list" where
  "bcast f xs ys =
     (if length xs = length ys then traverse (\<lambda>(x, y). f x y) (zip xs ys)
      else if length xs = 1 then traverse (f (hd xs)) ys
      else if length ys = 1 then traverse (\<lambda>x. f x (hd ys)) xs
      else Inl (RuntimeError ''the size of tensor a must match the size of tensor b''))"

record ActionSampler = "fval fc_stack" +
  action_dim :: nat
  state_dim :: nat
  noise_dim :: nat

text \<open>What a Python call hands back: a tensor, or \<^verbatim>\<open>None\<close> when the body ends without \<^verbatim>\<open>return\<close>.\<close>

datatype pyval = PyNone | PyTensor "fval list list list"

text \<open>
  \<^verbatim>\<open>
  def generate_motion_noise(self, x):
      x = self.fc1(x)
      x = self.relu(x)
      x = self.fc2(x)
      x = self.relu(x)
      x = self.fc3(x)
  \<close>
\<close>

definition relu3 :: "fval list list list \<Rightarrow> fval list list list" where
  "relu3 x = map (map (map relu)) x"

definition generate_motion_noise ::
  "rounding \<Rightarrow> ActionSampler \<Rightarrow> fval list list list \<Rightarrow> error + pyval" where
  "generate_motion_noise rnd self x =
     and_then (Linear_forward3 rnd (fc1 self) x) (\<lambda>x.
     let x = relu3 x in
     and_then (Linear_forward3 rnd (fc2 self) x) (\<lambda>x.
     let x = relu3 x in
     and_then (Linear_forward3 rnd (fc3 self) x) (\<lambda>x.
     Inr PyNone)))"

text \<open>\<^verbatim>\<open>actions / stds[:, None]\<close>: every row of \<open>actions\<close> divided by its sample's scale.\<close>

definition normalize_actions ::
  "rounding \<Rightarrow> fval list list \<Rightarrow> fval list \<Rightarrow> error + fval list list" where
  "normalize_actions rnd actions stds =
     bcast (\<lambda>row s. Inr (map (\<lambda>a. fdiv rnd a s) row)) actions stds"

text \<open>\<^verbatim>\<open>particles.shape[1]\<close>: indexing the shape tuple.\<close>

definition shape_at :: "nat list \<Rightarrow> nat \<Rightarrow> error + nat" where
  "shape_at shp i = (if i < length shp then Inr (shp ! i) else Inl (IndexError ''tuple index out of range''))"

text \<open>\<^verbatim>\<open>.unsqueeze(1).expand(-1, P, -1)\<close>: every row repeated once per particle.\<close>

definition expand_particles :: "nat \<Rightarrow> 'a list list \<Rightarrow> 'a list list list" where
  "expand_particles p x = map (replicate p) x"

text \<open>\<^verbatim>\<open>torch.randn_like\<close>: one draw per entry of the given tensor.\<close>

definition randn_like :: "'a list list list \<Rightarrow> real gen \<Rightarrow> fval list list list \<times> real gen" where
  "randn_like x g =
     map_gen (map_gen (\<lambda>row g. let (us, g1) = draw (length row) g in (map Fin us, g1))) x g"

text \<open>\<^verbatim>\<open>torch.cat([a, b], dim=-1)\<close> of two tensors of one shape.\<close>

definition cat_last :: "'a list list list \<Rightarrow> 'a list list list \<Rightarrow> 'a list list list" where
  "cat_last a b = map2 (map2 (@)) a b"

text \<open>\<^verbatim>\<open>delta.detach()\<close>: a method of tensors, which \<^verbatim>\<open>None\<close> does not have.\<close>

definition detach :: "pyval \<Rightarrow> error + fval list list list" where
  "detach v =
     (case v of
        PyNone \<Rightarrow> Inl (AttributeError ''NoneType object has no attribute detach'')
      | PyTensor t \<Rightarrow> Inr t)"

text \<open>
  \<^verbatim>\<open>delta -= delta.mean(dim=1, keepdim=True)\<close>: within each sample, the mean over the
  particles of every state component is subtracted from that component.
\<close>

definition mean_particles :: "rounding \<Rightarrow> fval list list \<Rightarrow> fval list" where
  "mean_particles rnd d =
     (case d of
        [] \<Rightarrow> []
      | r # _ \<Rightarrow>
          map (\<lambda>j. fdiv rnd (foldr (fadd rnd) (map (\<lambda>row. row ! j) d) (Fin 0))
                     (rnd (real (length d))))
            [0..<length r])"

definition recenter :: "rounding \<Rightarrow> fval list list list \<Rightarrow> fval list list list" where
  "recenter rnd delta =
     map (\<lambda>d. map (\<lambda>row. map2 (fsub rnd) row (mean_particles rnd d)) d) delta"

text \<open>\<^verbatim>\<open>actions.unsqueeze(1) + delta\<close>.\<close>

definition add_noise ::
  "rounding \<Rightarrow> fval list list \<Rightarrow> fval list list list \<Rightarrow> error + fval list list list" where
  "add_noise rnd actions delta =
     bcast (\<lambda>arow d. traverse (\<lambda>drow. bcast (\<lambda>a e. Inr (fadd rnd a e)) arow drow) d)
       actions delta"

text \<open>
  \<^verbatim>\<open>
  def forward(self, actions, stds, particles):
      actions_normalized = actions / stds[:, None]
      actions_expanded = (actions_normalized.unsqueeze(1)
                          .expand(-1, particles.shape[1], -1))
      random_input = torch.randn_like(actions_expanded)
      x = torch.cat([actions_expanded, random_input], dim=-1)
      delta = self.generate_motion_noise(x)
      delta = delta.detach()
      delta -= delta.mean(dim=1, keepdim=True)
      noisy_actions = actions.unsqueeze(1) + delta
      return noisy_actions
  \<close>
  Of \<open>particles\<close> the code reads the shape only, so the model takes the shape.
\<close>

definition ActionSampler_forward ::
  "rounding \<Rightarrow> ActionSampler \<Rightarrow> fval list list \<Rightarrow> fval list \<Rightarrow> nat list \<Rightarrow> real gen
     \<Rightarrow> (error + fval list list list) \<times> real gen" where
  "ActionSampler_forward rnd self actions stds particles g =
     (case
        and_then (normalize_actions rnd actions stds) (\<lambda>actions_normalized.
        and_then (shape_at particles 1) (\<lambda>p.
        Inr (expand_particles p actions_normalized)))
      of
        Inl e \<Rightarrow> (Inl e, g)
      | Inr actions_expanded \<Rightarrow>
        (let (random_input, g1) = randn_like actions_expanded g;
             x = cat_last actions_expanded random_input
         in (and_then (generate_motion_noise rnd self x) (\<lambda>delta.
             and_then (detach delta) (\<lambda>delta.
             let delta = recenter rnd delta in
             and_then (add_noise rnd actions delta) (\<lambda>noisy_actions.
             Inr noisy_actions))), g1)))"

section \<open>Construction\<close>

text \<open>
  An instance under construction is the mode flag of \<^verbatim>\<open>nn.Module\<close> and the table of
  the attributes assigned so far, in the order of assignment. An attribute holds a
  sub-module, a number, or a method bound to the instance.
\<close>

datatype 'a layer =
    Conv2d "'a conv2d"
  | Linear "'a linear"
  | Dropout real
  | Flatten nat
  | ReLU
  | Sigmoid

datatype 'a attr = Sub "'a layer" | Num real | IntV int | Bound string

record 'a module = nn_Module +
  attrs :: "(string \<times> 'a attr) list"

definition nn_Module_init :: "'a module" where
  "nn_Module_init = \<lparr>training = True, attrs = []\<rparr>"

definition setattr :: "'a module \<Rightarrow> string \<Rightarrow> 'a attr \<Rightarrow> 'a module" where
  "setattr self name v = self\<lparr>attrs := AList.update name v (attrs self)\<rparr>"

definition children :: "'a module \<Rightarrow> 'a layer list" where
  "children self = concat (map (\<lambda>(n, v). case v of Sub l \<Rightarrow> [l] | _ \<Rightarrow> []) (attrs self))"

text \<open>The public methods that every instance inherits from \<^verbatim>\<open>nn.Module\<close>.\<close>

definition nn_Module_methods :: "string list" where
  "nn_Module_methods =
     [''add_module'', ''apply'', ''bfloat16'', ''buffers'', ''children'', ''compile'',
      ''cpu'', ''cuda'', ''double'', ''eval'', ''extra_repr'', ''float'', ''forward'',
      ''get_buffer'', ''get_extra_state'', ''get_parameter'', ''get_submodule'', ''half'',
      ''ipu'', ''load_state_dict'', ''modules'', ''named_buffers'', ''named_children'',
      ''named_modules'', ''named_parameters'', ''parameters'', ''register_backward_hook'',
      ''register_buffer'', ''register_forward_hook'', ''register_forward_pre_hook'',
      ''register_full_backward_hook'', ''register_full_backward_pre_hook'',
      ''register_load_state_dict_post_hook'', ''register_module'', ''register_parameter'',
      ''register_state_dict_pre_hook'', ''requires_grad_'', ''set_extra_state'',
      ''share_memory'', ''state_dict'', ''to'', ''to_empty'', ''train'', ''type'', ''xpu'',
      ''zero_grad'']"

text \<open>
  \<^verbatim>\<open>self.name\<close>: the attributes of the instance, then the methods of its class and of
  \<^verbatim>\<open>nn.Module\<close>; any other name raises.
\<close>

definition getattr_module :: "string list \<Rightarrow> 'a module \<Rightarrow> string \<Rightarrow> error + 'a attr" where
  "getattr_module class_methods self name =
     (case map_of (attrs self) name of
        Some v \<Rightarrow> Inr v
      | None \<Rightarrow>
          if name \<in> set (class_methods @ nn_Module_methods) then Inr (Bound name)
          else Inl (AttributeError name))"

text \<open>
  \<^verbatim>\<open>self.apply(fn)\<close> calls \<open>fn\<close> on every sub-module and then on the instance. None of
  the values an attribute of these classes holds is a function of one module: a
  sub-module called on a module rejects its argument and a number is not callable. A
  bound method handed to \<^verbatim>\<open>apply\<close> is not followed further and recorded as a type
  error as well; no constructor of this file passes one.
\<close>

definition call_on_module :: "'a attr \<Rightarrow> error + unit" where
  "call_on_module fn =
     (case fn of
        Sub l \<Rightarrow> Inl (TypeError ''argument input must be Tensor'')
      | Num r \<Rightarrow> Inl (TypeError ''float object is not callable'')
      | IntV i \<Rightarrow> Inl (TypeError ''int object is not callable'')
      | Bound n \<Rightarrow> Inl (TypeError n))"

definition nn_Module_apply :: "'a attr \<Rightarrow> 'a module \<Rightarrow> error + 'a module" where
  "nn_Module_apply fn self =
     and_then (traverse (\<lambda>c. call_on_module fn) (children self)) (\<lambda>_.
     and_then (call_on_module fn) (\<lambda>_.
     Inr self))"

text \<open>
  The constructors of the layers. A new layer draws its initial weights and bias from
  the generator. Sizes are Python integers; a negative one makes the allocation of the
  weight fail.
\<close>

definition Linear_init :: "int \<Rightarrow> int \<Rightarrow> 'a gen \<Rightarrow> error + ('a linear \<times> 'a gen)" where
  "Linear_init i_f o_f g =
     (if i_f < 0 \<or> o_f < 0
      then Inl (RuntimeError ''trying to create tensor with negative dimension'')
      else
        (let n_in = nat i_f; n_out = nat o_f in
         Inr (\<lparr>in_features = n_in, out_features = n_out,
               weight = map (\<lambda>r. map (\<lambda>c. g (r * n_in + c)) [0..<n_in]) [0..<n_out],
               bias = map (\<lambda>r. g (n_out * n_in + r)) [0..<n_out]\<rparr>,
              \<lambda>n. g (n + (n_out * n_in + n_out)))))"

definition Conv2d_init ::
  "int \<Rightarrow> int \<Rightarrow> nat \<Rightarrow> nat \<Rightarrow> padding \<Rightarrow> 'a gen \<Rightarrow> error + ('a conv2d \<times> 'a gen)" where
  "Conv2d_init c_in c_out k s pad g =
     (if pad = Same \<and> s \<noteq> 1
      then Inl (ValueError ''padding same is not supported for strided convolutions'')
      else if c_in < 0 \<or> c_out < 0
      then Inl (RuntimeError ''trying to create tensor with negative dimension'')
      else
        (let ci = nat c_in; co = nat c_out in
         Inr (\<lparr>in_channels = ci, out_channels = co, kernel_size = k, stride = s,
               padding = pad,
               conv_weight =
                 map (\<lambda>oc. map (\<lambda>c. map (\<lambda>u. map (\<lambda>v.
                   g (((oc * ci + c) * k + u) * k + v)) [0..<k]) [0..<k]) [0..<ci]) [0..<co],
               conv_bias = map (\<lambda>oc. g (co * ci * k * k + oc)) [0..<co]\<rparr>,
              \<lambda>n. g (n + (co * ci * k * k + co)))))"

definition Dropout_init :: "real \<Rightarrow> error + 'a layer" where
  "Dropout_init p =
     (if p < 0 \<or> 1 < p
      then Inl (ValueError ''dropout probability has to be between 0 and 1'')
      else Inr (Dropout p))"

text \<open>
  \<^verbatim>\<open>
  class DPF_SE2(nn.Module):
      def __init__(self):
          super(DPF_SE2, self).__init__()
  \<close>
\<close>

definition DPF_SE2_methods :: "string list" where
  "DPF_SE2_methods = [''__init__'']"

definition DPF_SE2_init :: "error + 'a module" where
  "DPF_SE2_init = (let self = nn_Module_init in Inr self)"

text \<open>
  \<^verbatim>\<open>
  def __init__(self, H, W, in_channels=3, dropout_rate=0.3):
      super(ObservationalEncoder, self).__init__()
      conv1_num_filters = 16
      conv2_num_filters = 32
      conv3_num_filters = 64
      fc_num_features = 128
      self.conv1 = nn.Conv2d(in_channels=in_channels, out_channels=conv1_num_filters,
                             kernel_size=3, stride=2, padding='same')
      self.conv2 = nn.Conv2d(in_channels=conv1_num_filters, out_channels=conv2_num_filters,
                             kernel_size=3, stride=2, padding='same')
      self.conv3 = nn.Conv2d(in_channels=conv2_num_filters, out_channels=conv3_num_filters,
                             kernel_size=3, stride=2, padding='same')
      self.dropout = nn.Dropout(p=dropout_rate)
      self.flatten = nn.Flatten(start_dim=1)
      self.fc = nn.Linear(in_features= conv3_num_filters * (H//8) * (W//8),
                          out_features=fc_num_features)
      self.relu = nn.ReLU()
      self.apply(self.init_xavier_normal)
  \<close>
  The name \<^verbatim>\<open>init_xavier_normal\<close> is imported into the file's global namespace;
  the last statement looks it up on the instance.
\<close>

definition ObservationalEncoder_methods :: "string list" where
  "ObservationalEncoder_methods = [''__init__'', ''forward'']"

definition ObservationalEncoder_init ::
  "int \<Rightarrow> int \<Rightarrow> int \<Rightarrow> real \<Rightarrow> 'a gen \<Rightarrow> error + ('a module \<times> 'a gen)" where
  "ObservationalEncoder_init H W in_chans dropout_rate g =
     (let self = nn_Module_init;
          conv1_num_filters = 16;
          conv2_num_filters = 32;
          conv3_num_filters = 64;
          fc_num_features = 128 in
      and_then (Conv2d_init in_chans conv1_num_filters 3 2 Same g) (\<lambda>(c1, g).
      let self = setattr self ''conv1'' (Sub (Conv2d c1)) in
      and_then (Conv2d_init conv1_num_filters conv2_num_filters 3 2 Same g) (\<lambda>(c2, g).
      let self = setattr self ''conv2'' (Sub (Conv2d c2)) in
      and_then (Conv2d_init conv2_num_filters conv3_num_filters 3 2 Same g) (\<lambda>(c3, g).
      let self = setattr self ''conv3'' (Sub (Conv2d c3)) in
      and_then (Dropout_init dropout_rate) (\<lambda>d.
      let self = setattr self ''dropout'' (Sub d);
          self = setattr self ''flatten'' (Sub (Flatten 1)) in
      and_then (Linear_init (conv3_num_filters * (H div 8) * (W div 8)) fc_num_features g) (\<lambda>(l, g).
      let self = setattr self ''fc'' (Sub (Linear l));
          self = setattr self ''relu'' (Sub ReLU) in
      and_then (getattr_module ObservationalEncoder_methods self ''init_xavier_normal'') (\<lambda>fn.
      and_then (nn_Module_apply fn self) (\<lambda>self.
      Inr (self, g)))))))))"

text \<open>
  \<^verbatim>\<open>
  def __init__(self, in_features=128, min_observation_likelihood=0.004):
      super(ObservationalLikelihoodEstimator, self).__init__()
      fc1_num_features = 128
      fc2_num_features = 128
      fc3_num_features = 1
      self.min_observation_likelihood = min_observation_likelihood
      self.fc1 = nn.Linear(in_features=in_features, out_features=fc1_num_features)
      self.fc2 = nn.Linear(in_features=fc1_num_features, out_features=fc2_num_features)
      self.fc3 = nn.Linear(in_features=fc2_num_features, out_features=fc3_num_features)
      self.relu = nn.ReLU()
      self.sigmoid = nn.Sigmoid()
      self.apply(self.init_xavier_normal)
  \<close>
\<close>

definition ObservationalLikelihoodEstimator_methods :: "string list" where
  "ObservationalLikelihoodEstimator_methods = [''__init__'', ''forward'']"

definition ObservationalLikelihoodEstimator_init ::
  "int \<Rightarrow> real \<Rightarrow> 'a gen \<Rightarrow> error + ('a module \<times> 'a gen)" where
  "ObservationalLikelihoodEstimator_init in_feats min_likelihood g =
     (let self = nn_Module_init;
          fc1_num_features = 128;
          fc2_num_features = 128;
          fc3_num_features = 1;
          self = setattr self ''min_observation_likelihood'' (Num min_likelihood) in
      and_then (Linear_init in_feats fc1_num_features g) (\<lambda>(l1, g).
      let self = setattr self ''fc1'' (Sub (Linear l1)) in
      and_then (Linear_init fc1_num_features fc2_num_features g) (\<lambda>(l2, g).
      let self = setattr self ''fc2'' (Sub (Linear l2)) in
      and_then (Linear_init fc2_num_features fc3_num_features g) (\<lambda>(l3, g).
      let self = setattr self ''fc3'' (Sub (Linear l3));
          self = setattr self ''relu'' (Sub ReLU);
          self = setattr self ''sigmoid'' (Sub Sigmoid) in
      and_then (getattr_module ObservationalLikelihoodEstimator_methods self ''init_xavier_normal'')
        (\<lambda>fn.
      and_then (nn_Module_apply fn self) (\<lambda>self.
      Inr (self, g)))))))"

text \<open>
  \<^verbatim>\<open>
  def __init__(self, action_dim=3, state_dim=3, noise_dim=None):
      super(ActionSampler, self).__init__()
      self.action_dim = action_dim
      self.state_dim = state_dim
      if noise_dim is None:
          self.noise_dim = action_dim
      else:
          self.noise_dim = noise_dim
      fc1_num_features = 32
      fc2_num_features = 32
      fc3_num_features = action_dim
      self.fc1 = nn.Linear(in_features=self.action_dim + self.noise_dim,
                           out_features=fc1_num_features)
      self.fc2 = nn.Linear(in_features=fc1_num_features, out_features=fc2_num_features)
      self.fc3 = nn.Linear(in_features=fc2_num_features, out_features=self.state_dim)
      self.relu = nn.ReLU()
      self.apply(self.init_xavier_normal)
  \<close>
\<close>

definition ActionSampler_methods :: "string list" where
  "ActionSampler_methods = [''__init__'', ''generate_motion_noise'', ''forward'']"

definition ActionSampler_init ::
  "int \<Rightarrow> int \<Rightarrow> int option \<Rightarrow> 'a gen \<Rightarrow> error + ('a module \<times> 'a gen)" where
  "ActionSampler_init act_dim st_dim noise_dim_arg g =
     (let self = nn_Module_init;
          self = setattr self ''action_dim'' (IntV act_dim);
          self = setattr self ''state_dim'' (IntV st_dim);
          n_dim = (case noise_dim_arg of None \<Rightarrow> act_dim | Some n \<Rightarrow> n);
          self = setattr self ''noise_dim'' (IntV n_dim);
          fc1_num_features = 32;
          fc2_num_features = 32;
          fc3_num_features = act_dim in
      and_then (Linear_init (act_dim + n_dim) fc1_num_features g) (\<lambda>(l1, g).
      let self = setattr self ''fc1'' (Sub (Linear l1)) in
      and_then (Linear_init fc1_num_features fc2_num_features g) (\<lambda>(l2, g).
      let self = setattr self ''fc2'' (Sub (Linear l2)) in
      and_then (Linear_init fc2_num_features st_dim g) (\<lambda>(l3, g).
      let self = setattr self ''fc3'' (Sub (Linear l3));
          self = setattr self ''relu'' (Sub ReLU) in
      and_then (getattr_module ActionSampler_methods self ''init_xavier_normal'') (\<lambda>fn.
      and_then (nn_Module_apply fn self) (\<lambda>self.
      Inr (self, g)))))))"

section \<open>Concrete instances\<close>

text \<open>
  An action sampler with the layer sizes of the default constructor arguments
  (six inputs, two hidden layers of 32, three outputs), every weight and bias \<open>w\<close>.
\<close>

definition constant_linear :: "nat \<Rightarrow> nat \<Rightarrow> 'a \<Rightarrow> 'a linear" where
  "constant_linear n_in n_out w =
     \<lparr>in_features = n_in, out_features = n_out,
      weight = replicate n_out (replicate n_in w), bias = replicate n_out w\<rparr>"

definition default_sampler :: "fval \<Rightarrow> ActionSampler" where
  "default_sampler w =
     \<lparr>training = True,
      fc1 = constant_linear 6 32 w, fc2 = constant_linear 32 32 w, fc3 = constant_linear 32 3 w,
      action_dim = 3, state_dim = 3, noise_dim = 3\<rparr>"

text \<open>
  Likelihood estimators with one feature per layer: one with every weight and bias 1
  and the default floor; one with every weight and bias 0, whose last layer always
  yields 0, with a given floor; and one whose first layer doubles its input and whose
  second layer multiplies by 0, with the default floor.
\<close>

definition small_estimator :: ObservationalLikelihoodEstimator where
  "small_estimator =
     \<lparr>training = True,
      fc1 = constant_linear 1 1 (Fin 1), fc2 = constant_linear 1 1 (Fin 1),
      fc3 = constant_linear 1 1 (Fin 1),
      min_observation_likelihood = 4 / 1000\<rparr>"

definition zero_estimator :: "real \<Rightarrow> ObservationalLikelihoodEstimator" where
  "zero_estimator m =
     \<lparr>training = True,
      fc1 = constant_linear 1 1 (Fin 0), fc2 = constant_linear 1 1 (Fin 0),
      fc3 = constant_linear 1 1 (Fin 0),
      min_observation_likelihood = m\<rparr>"

definition doubling_estimator :: ObservationalLikelihoodEstimator where
  "doubling_estimator =
     \<lparr>training = True,
      fc1 = \<lparr>in_features = 1, out_features = 1, weight = [[Fin 2]], bias = [Fin 0]\<rparr>,
      fc2 = \<lparr>in_features = 1, out_features = 1, weight = [[Fin 0]], bias = [Fin 0]\<rparr>,
      fc3 = \<lparr>in_features = 1, out_features = 1, weight = [[Fin 1]], bias = [Fin 0]\<rparr>,
      min_observation_likelihood = 4 / 1000\<rparr>"

text \<open>
  Encoders in training mode whose convolutions have a single 1x1 kernel of weight 1,
  with dropout rate one half and a single output feature of weight \<open>w\<close>.
\<close>

definition unit_conv :: "fval conv2d" where
  "unit_conv =
     \<lparr>in_channels = 1, out_channels = 1, kernel_size = 1, stride = 1, padding = Pad 0,
      conv_weight = [[[[Fin 1]]]], conv_bias = [Fin 0]\<rparr>"

definition weighted_encoder :: "real \<Rightarrow> ObservationalEncoder" where
  "weighted_encoder w =
     \<lparr>training = True, conv1 = unit_conv, conv2 = unit_conv, conv3 = unit_conv,
      dropout = 1 / 2,
      fc = \<lparr>in_features = 1, out_features = 1, weight = [[Fin w]], bias = [Fin 0]\<rparr>\<rparr>"

definition small_encoder :: ObservationalEncoder where
  "small_encoder = weighted_encoder 1"

text \<open>The real number that a finite entry stands for.\<close>

fun value_of :: "fval \<Rightarrow> real" where
  "value_of (Fin a) = a"
| "value_of _ = 0"

section \<open>Auxiliary lemmas\<close>

subsection \<open>Error propagation\<close>

lemma and_then_simps [simp]:
  "and_then (Inl e) f = Inl e"
  "and_then (Inr v) f = f v"
  by (simp_all add: and_then_def)

lemma and_then_Inr_iff:
  "and_then r f = Inr y \<longleftrightarrow> (\<exists>v. r = Inr v \<and> f v = Inr y)"
  by (cases r) auto

lemma traverse_Inr:
  "traverse f xs = Inr ys \<Longrightarrow> list_all2 (\<lambda>x y. f x = Inr y) xs ys"
proof (induction xs arbitrary: ys)
  case Nil
  then show ?case by simp
next
  case (Cons x xs)
  then show ?case
    by (auto split: sum.splits)
qed

lemma traverse_map:
  "(\<And>x. x \<in> set xs \<Longrightarrow> f x = Inr (h x)) \<Longrightarrow> traverse f xs = Inr (map h xs)"
  by (induction xs) auto

lemma traverse_Inr_set:
  assumes "traverse f xs = Inr ys" and "y \<in> set ys"
  shows "\<exists>x\<in>set xs. f x = Inr y"
proof -
  from assms(1) have la: "list_all2 (\<lambda>x y. f x = Inr y) xs ys" by (rule traverse_Inr)
  from assms(2) obtain i where "i < length ys" "ys ! i = y" by (auto simp: in_set_conv_nth)
  with la have "f (xs ! i) = Inr y" "i < length xs"
    by (auto simp: list_all2_conv_all_nth)
  then show ?thesis by (metis nth_mem)
qed

lemma bcast_Inr_set:
  assumes "bcast f xs ys = Inr zs" and "z \<in> set zs"
  shows "\<exists>x\<in>set xs. \<exists>y\<in>set ys. f x y = Inr z"
proof -
  consider (eq) "length xs = length ys"
    | (left) "length xs \<noteq> length ys" "length xs = 1"
    | (right) "length xs \<noteq> length ys" "length xs \<noteq> 1" "length ys = 1"
    | (bad) "length xs \<noteq> length ys" "length xs \<noteq> 1" "length ys \<noteq> 1"
    by blast
  then show ?thesis
  proof cases
    case eq
    with assms(1) have "traverse (\<lambda>(x, y). f x y) (zip xs ys) = Inr zs"
      by (simp add: bcast_def)
    from traverse_Inr_set [OF this assms(2)]
    obtain x y where "(x, y) \<in> set (zip xs ys)" "f x y = Inr z" by auto
    then show ?thesis by (meson set_zip_leftD set_zip_rightD)
  next
    case left
    with assms(1) have "traverse (f (hd xs)) ys = Inr zs" by (simp add: bcast_def)
    from traverse_Inr_set [OF this assms(2)]
    obtain y where "y \<in> set ys" "f (hd xs) y = Inr z" by auto
    moreover from left have "hd xs \<in> set xs" by (cases xs) auto
    ultimately show ?thesis by blast
  next
    case right
    with assms(1) have "traverse (\<lambda>x. f x (hd ys)) xs = Inr zs" by (simp add: bcast_def)
    from traverse_Inr_set [OF this assms(2)]
    obtain x where "x \<in> set xs" "f x (hd ys) = Inr z" by auto
    moreover from right have "hd ys \<in> set ys" by (cases ys) auto
    ultimately show ?thesis by blast
  next
    case bad
    with assms(1) show ?thesis by (simp add: bcast_def)
  qed
qed

subsection \<open>Roundings\<close>

lemma rounding_mono: "rounding_ok rnd \<Longrightarrow> r \<le> s \<Longrightarrow> fle (rnd r) (rnd s)"
  by (simp add: rounding_ok_def)

lemma rounding_keeps: "rounding_ok rnd \<Longrightarrow> rnd r = Fin a \<Longrightarrow> rnd a = Fin a"
  unfolding rounding_ok_def by blast

lemma rounding_unit:
  assumes ok: "rounding_ok rnd" and r: "0 \<le> r" "r \<le> 1"
  shows "\<exists>a. rnd r = Fin a \<and> 0 \<le> a \<and> a \<le> 1"
proof -
  have "fle (rnd 0) (rnd r)" "fle (rnd r) (rnd 1)"
    using ok r by (simp_all add: rounding_mono)
  then have "fle (Fin 0) (rnd r)" "fle (rnd r) (Fin 1)"
    using ok by (simp_all add: rounding_ok_def)
  then show ?thesis by (cases "rnd r") simp_all
qed

lemma exact_ok: "rounding_ok exact"
  by (simp add: rounding_ok_def exact_def)

lemma range32_ok: "rounding_ok range32"
  unfolding rounding_ok_def
proof (intro conjI allI impI)
  fix r show "range32 r \<noteq> NaN" by (simp add: range32_def signed_inf_def)
next
  fix r s :: real assume "r \<le> s"
  then show "fle (range32 r) (range32 s)"
    by (auto simp: range32_def signed_inf_def abs_if split: if_splits)
next
  fix r a assume "range32 r = Fin a"
  then show "range32 a = Fin a"
    by (auto simp: range32_def signed_inf_def split: if_splits)
next
  show "range32 0 = Fin 0" "range32 1 = Fin 1" by (simp_all add: range32_def)
qed

subsection \<open>Fully-connected layers\<close>

lemma Linear_forward_ok:
  "length x = in_features l \<Longrightarrow>
   Linear_forward rnd l x = Inr (map2 (\<lambda>w b. fadd rnd (dot rnd w x) b) (weight l) (bias l))"
  by (simp add: Linear_forward_def)

lemma Linear_forward2_ok:
  assumes "\<And>r. r \<in> set x \<Longrightarrow> length r = in_features l"
  shows "Linear_forward2 rnd l x =
         Inr (map (\<lambda>r. map2 (\<lambda>w b. fadd rnd (dot rnd w r) b) (weight l) (bias l)) x)"
  unfolding Linear_forward2_def
  by (rule traverse_map) (simp add: Linear_forward_ok assms)

lemma Linear_forward3_ok:
  assumes "\<And>m r. m \<in> set x \<Longrightarrow> r \<in> set m \<Longrightarrow> length r = in_features l"
  shows "Linear_forward3 rnd l x =
         Inr (map (map (\<lambda>r. map2 (\<lambda>w b. fadd rnd (dot rnd w r) b) (weight l) (bias l))) x)"
  unfolding Linear_forward3_def
  by (rule traverse_map) (simp add: Linear_forward2_ok assms)

lemma constant_linear_ok: "linear_ok (constant_linear n_in n_out w)"
  by (simp add: linear_ok_def constant_linear_def list_all_iff)

lemma default_sampler_ok: "fc_stack_ok (default_sampler w)"
  by (simp add: fc_stack_ok_def default_sampler_def constant_linear_ok)
     (simp add: constant_linear_def)

subsection \<open>The logistic function and the rescaling\<close>

lemma logistic_bounds: "0 < 1 / (1 + exp (- t)) \<and> 1 / (1 + exp (- t)) < (1::real)"
proof -
  have "0 < exp (- t)" by simp
  then show ?thesis by (simp add: add_pos_pos)
qed

lemma arith32_ok: "arithmetic_ok arith32"
proof -
  have "\<exists>s. range32 (1 / (1 + exp (- a))) = Fin s \<and> 0 \<le> s \<and> s \<le> 1" for a
    using logistic_bounds [of a] by (intro rounding_unit range32_ok) simp_all
  then show ?thesis by (simp add: arithmetic_ok_def arith32_def range32_ok exact_ok)
qed

lemma sigmoid_unit:
  assumes ok: "arithmetic_ok ar" and t: "t \<noteq> NaN"
  shows "\<exists>a. sigmoid (logistic ar) t = Fin a \<and> 0 \<le> a \<and> a \<le> 1"
proof (cases t)
  case (Fin b)
  from ok obtain s where "logistic ar b = Fin s" "0 \<le> s" "s \<le> 1"
    unfolding arithmetic_ok_def by blast
  with Fin show ?thesis by simp
qed (use t in simp_all)

lemma rescale_NaN: "rescale ar m NaN = NaN"
  by (simp add: rescale_def Let_def)

lemma rescale_bounds:
  assumes ok: "arithmetic_ok ar" and m: "0 \<le> m" "m \<le> 1" and s: "0 \<le> a" "a \<le> 1"
  shows "fle (tensor_rounding ar m) (rescale ar m (Fin a)) \<and>
         fle (rescale ar m (Fin a))
           (fadd (tensor_rounding ar) (cast (tensor_rounding ar) (python_rounding ar (1 - m)))
              (tensor_rounding ar m))"
proof -
  let ?rnd = "tensor_rounding ar"
  have rok: "rounding_ok ?rnd" and pok: "rounding_ok (python_rounding ar)"
    using ok by (simp_all add: arithmetic_ok_def)
  from m have "0 \<le> 1 - m" "1 - m \<le> 1" by simp_all
  from rounding_unit [OF pok this] obtain c0
    where c0: "python_rounding ar (1 - m) = Fin c0" "0 \<le> c0" "c0 \<le> 1"
    by blast
  from rounding_unit [OF rok c0(2,3)] obtain c where c: "?rnd c0 = Fin c" "0 \<le> c" "c \<le> 1"
    by blast
  from rounding_unit [OF rok m] obtain f where f: "?rnd m = Fin f" "0 \<le> f" "f \<le> 1"
    by blast
  have ac: "0 \<le> a * c" "a * c \<le> 1" "a * c \<le> c"
    using s c by (simp_all add: mult_le_one mult_left_le_one_le)
  from rounding_unit [OF rok ac(1,2)] obtain p where p: "?rnd (a * c) = Fin p" "0 \<le> p"
    by blast
  have "fle (?rnd (a * c)) (?rnd c)" using rok ac(3) by (rule rounding_mono)
  moreover have "?rnd c = Fin c" using rok c(1) by (rule rounding_keeps)
  ultimately have pc: "p \<le> c" using p by simp
  have v: "rescale ar m (Fin a) = ?rnd (p + f)"
    by (simp add: rescale_def Let_def c0 c f p)
  have "fle (?rnd f) (?rnd (p + f))" using rok p(2) by (intro rounding_mono) simp_all
  moreover have "?rnd f = Fin f" using rok f(1) by (rule rounding_keeps)
  ultimately have lower: "fle (?rnd m) (?rnd (p + f))" using f by simp
  have upper: "fle (?rnd (p + f)) (?rnd (c + f))" using rok pc by (intro rounding_mono) simp_all
  show ?thesis using lower upper by (simp add: v c0 c f)
qed

lemma estimator_output_form:
  assumes "fst (ObservationalLikelihoodEstimator_forward ar self x g) = Inr y"
    and "r \<in> set y" and "v \<in> set r"
  shows "\<exists>t. v = rescale ar (min_observation_likelihood self) (sigmoid (logistic ar) t)"
  using assms unfolding ObservationalLikelihoodEstimator_forward_def Let_def
  by (fastforce simp: and_then_Inr_iff comp_def)

lemma estimator_returns:
  assumes ok: "fc_stack_ok self"
    and shp: "\<And>r. r \<in> set x \<Longrightarrow> length r = in_features (fc1 self)"
  shows "\<exists>y. fst (ObservationalLikelihoodEstimator_forward ar self x g) = Inr y \<and>
             length y = length x \<and> (\<forall>r\<in>set y. length r = out_features (fc3 self))"
proof -
  let ?rnd = "tensor_rounding ar"
  let ?f = "\<lambda>l r. map2 (\<lambda>w b. fadd ?rnd (dot ?rnd w r) b) (weight l) (bias l)"
  have l1: "linear_ok (fc1 self)" and l2: "linear_ok (fc2 self)" and l3: "linear_ok (fc3 self)"
    and c12: "out_features (fc1 self) = in_features (fc2 self)"
    and c23: "out_features (fc2 self) = in_features (fc3 self)"
    using ok by (simp_all add: fc_stack_ok_def)
  have s1: "Linear_forward2 ?rnd (fc1 self) x = Inr (map (?f (fc1 self)) x)"
    using shp by (rule Linear_forward2_ok)
  let ?x1 = "map (map relu) (map (?f (fc1 self)) x)"
  have s2: "Linear_forward2 ?rnd (fc2 self) ?x1 = Inr (map (?f (fc2 self)) ?x1)"
    using l1 by (intro Linear_forward2_ok) (auto simp: linear_ok_def c12 [symmetric])
  let ?x2 = "map (map relu) (map (?f (fc2 self)) ?x1)"
  have s3: "Linear_forward2 ?rnd (fc3 self) ?x2 = Inr (map (?f (fc3 self)) ?x2)"
    using l2 by (intro Linear_forward2_ok) (auto simp: linear_ok_def c23 [symmetric])
  have "fst (ObservationalLikelihoodEstimator_forward ar self x g) =
        Inr (map (map (rescale ar (min_observation_likelihood self)))
               (map (map (sigmoid (logistic ar))) (map (?f (fc3 self)) ?x2)))"
    unfolding ObservationalLikelihoodEstimator_forward_def Let_def s1 and_then_simps s2 s3
    by simp
  moreover have "\<forall>r\<in>set (map (map (rescale ar (min_observation_likelihood self)))
               (map (map (sigmoid (logistic ar))) (map (?f (fc3 self)) ?x2))).
                 length r = out_features (fc3 self)"
    using l3 by (auto simp: linear_ok_def)
  ultimately show ?thesis by simp
qed

section \<open>The likelihood estimator\<close>

lemma arith32_simps [simp]:
  "tensor_rounding arith32 = range32"
  "python_rounding arith32 = exact"
  "logistic arith32 a = range32 (1 / (1 + exp (- a)))"
  by (simp_all add: arith32_def)

lemma zero_estimator_value:
  "fst (ObservationalLikelihoodEstimator_forward arith32 (zero_estimator m) [[Fin a]] g) =
   Inr [[rescale arith32 m (Fin (1 / 2))]]"
  by (simp add: ObservationalLikelihoodEstimator_forward_def zero_estimator_def
      constant_linear_def Linear_forward2_def Linear_forward_def dot_def range32_def)

lemma zero_estimator_ok: "fc_stack_ok (zero_estimator m)"
  by (simp add: fc_stack_ok_def zero_estimator_def constant_linear_ok)
     (simp add: constant_linear_def)




text \<open>
  Claim C9. \<open>ObservationalLikelihoodEstimator.forward\<close> is deterministic: its result
  depends neither on the mode flag nor on the random number generator, which it hands
  back untouched, so two calls on one input with fixed weights return the same output.
  The encoder differs: in training mode its dropout layer makes the output depend on
  the numbers drawn.
\<close>

theorem estimator_forward_deterministic:
  "fst (ObservationalLikelihoodEstimator_forward ar (self\<lparr>training := mode1\<rparr>) x g1) =
   fst (ObservationalLikelihoodEstimator_forward ar (self\<lparr>training := mode2\<rparr>) x g2) \<and>
   snd (ObservationalLikelihoodEstimator_forward ar self x g1) = g1 \<and>
   fst (ObservationalEncoder_forward range32 small_encoder [[[[Fin 1]]]] (\<lambda>_. 0)) \<noteq>
   fst (ObservationalEncoder_forward range32 small_encoder [[[[Fin 1]]]] (\<lambda>_. 1))"
proof -
  have conv: "Conv2d_forward range32 unit_conv [[[[Fin 1]]]] = Inr [[[[Fin 1]]]]"
    by (simp add: Conv2d_forward_def Conv2d_forward1_def unit_conv_def pad_amount_def
        height_def width_def px_def range32_def)
  have kept: "fst (ObservationalEncoder_forward range32 small_encoder [[[[Fin 1]]]] (\<lambda>_. 1)) =
      Inr [[Fin 2]]"
    by (simp add: ObservationalEncoder_forward_def small_encoder_def weighted_encoder_def conv
        relu4_def Dropout_forward_def dropout_row_def dropout_noise_def draw_def
        Flatten_forward_def Linear_forward2_def Linear_forward_def dot_def range32_def)
  have dropped: "fst (ObservationalEncoder_forward range32 small_encoder [[[[Fin 1]]]] (\<lambda>_. 0)) =
      Inr [[Fin 0]]"
    by (simp add: ObservationalEncoder_forward_def small_encoder_def weighted_encoder_def conv
        relu4_def Dropout_forward_def dropout_row_def dropout_noise_def draw_def
        Flatten_forward_def Linear_forward2_def Linear_forward_def dot_def range32_def)
  show ?thesis
    by (simp add: kept dropped) (simp add: ObservationalLikelihoodEstimator_forward_def)
qed

theorem estimator_forward_deterministic_witness:
  "fst (ObservationalLikelihoodEstimator_forward arith32 (small_estimator\<lparr>training := True\<rparr>)
          [[Fin (- 1)]] (\<lambda>_. 0)) =
   fst (ObservationalLikelihoodEstimator_forward arith32 (small_estimator\<lparr>training := False\<rparr>)
          [[Fin (- 1)]] (\<lambda>_. 1))"
  using estimator_forward_deterministic
    [where ar = arith32 and self = small_estimator and ?mode1.0 = True
       and x = "[[Fin (- 1)]]" and ?g1.0 = "\<lambda>_. 0" and ?mode2.0 = False and ?g2.0 = "\<lambda>_. 1"]
  by simp

section \<open>The encoder\<close>

lemma relu_not_negative: "relu t = NaN \<or> fle (Fin 0) (relu t)"
  by (cases t) simp_all

lemma relu_NaN_iff: "relu t = NaN \<longleftrightarrow> t = NaN"
  by (cases t) simp_all

lemma encoder_output_form:
  assumes "fst (ObservationalEncoder_forward rnd self x g) = Inr y"
  shows "\<exists>z. y = map (map relu) z"
  using assms unfolding ObservationalEncoder_forward_def Let_def
  by (auto split: sum.splits prod.splits simp: and_then_Inr_iff)

lemma unit_conv_forward:
  "Conv2d_forward range32 unit_conv [[[[Fin 1]]]] = Inr [[[[Fin 1]]]]"
  "Conv2d_forward range32 unit_conv [[[[NaN]]]] = Inr [[[[NaN]]]]"
  by (simp_all add: Conv2d_forward_def Conv2d_forward1_def unit_conv_def pad_amount_def
      height_def width_def px_def range32_def)




section \<open>Construction of the four classes\<close>

lemma init_xavier_normal_not_inherited: "''init_xavier_normal'' \<notin> set nn_Module_methods"
  by (simp add: nn_Module_methods_def)

lemma Linear_init_nonneg:
  "0 \<le> i \<Longrightarrow> 0 \<le> n \<Longrightarrow> \<exists>l g1. Linear_init i n g = Inr (l, g1)"
  by (simp add: Linear_init_def Let_def)

lemma ObservationalLikelihoodEstimator_init_fails:
  "\<exists>e. ObservationalLikelihoodEstimator_init i m g = Inl e"
  unfolding ObservationalLikelihoodEstimator_init_def Let_def
  by (auto simp: and_then_def setattr_def update_conv' getattr_module_def nn_Module_init_def
      ObservationalLikelihoodEstimator_methods_def init_xavier_normal_not_inherited
      split: sum.splits)

lemma ActionSampler_init_fails:
  "\<exists>e. ActionSampler_init a s n g = Inl e"
  unfolding ActionSampler_init_def Let_def
  by (auto simp: and_then_def setattr_def update_conv' getattr_module_def nn_Module_init_def
      ActionSampler_methods_def init_xavier_normal_not_inherited
      split: sum.splits)

lemma ObservationalLikelihoodEstimator_init_default:
  "ObservationalLikelihoodEstimator_init 128 (4 / 1000) g =
   Inl (AttributeError ''init_xavier_normal'')"
proof -
  obtain l1 g1 where a: "Linear_init 128 128 g = Inr (l1, g1)"
    using Linear_init_nonneg [of 128 128 g] by auto
  obtain l2 g2 where b: "Linear_init 128 128 g1 = Inr (l2, g2)"
    using Linear_init_nonneg [of 128 128 g1] by auto
  obtain l3 g3 where c: "Linear_init 128 1 g2 = Inr (l3, g3)"
    using Linear_init_nonneg [of 128 1 g2] by auto
  show ?thesis
    unfolding ObservationalLikelihoodEstimator_init_def Let_def
    by (simp add: a b c setattr_def update_conv' getattr_module_def nn_Module_init_def
      ObservationalLikelihoodEstimator_methods_def init_xavier_normal_not_inherited)
qed

lemma ActionSampler_init_default:
  "ActionSampler_init 3 3 None g = Inl (AttributeError ''init_xavier_normal'')"
proof -
  obtain l1 g1 where a: "Linear_init 6 32 g = Inr (l1, g1)"
    using Linear_init_nonneg [of 6 32 g] by auto
  obtain l2 g2 where b: "Linear_init 32 32 g1 = Inr (l2, g2)"
    using Linear_init_nonneg [of 32 32 g1] by auto
  obtain l3 g3 where c: "Linear_init 32 3 g2 = Inr (l3, g3)"
    using Linear_init_nonneg [of 32 3 g2] by auto
  show ?thesis
    unfolding ActionSampler_init_def Let_def
    by (simp add: a b c setattr_def update_conv' getattr_module_def nn_Module_init_def
      ActionSampler_methods_def init_xavier_normal_not_inherited)
qed

text \<open>
  Claim C3 says that \<open>ObservationalEncoder(H, W, c)\<close> can be constructed for every
  \<open>H\<close> and \<open>W\<close> divisible by 8 and then maps a batch of shape \<open>(B, c, H, W)\<close> to shape
  \<open>(B, 128)\<close>. The constructor never gets that far: its first statement asks for a
  convolution with stride 2 and \<^verbatim>\<open>'same'\<close> padding, which the layer's constructor
  rejects, for every choice of the arguments and so for \<open>H = W = 8\<close>, \<open>c = 3\<close>.
\<close>

theorem ObservationalEncoder_init_raises:
  "ObservationalEncoder_init H W in_chans dropout_rate g =
     Inl (ValueError ''padding same is not supported for strided convolutions'') \<and>
   ObservationalEncoder_init 8 8 3 (3 / 10) g =
     Inl (ValueError ''padding same is not supported for strided convolutions'')"
  by (simp add: ObservationalEncoder_init_def Conv2d_init_def)

text \<open>
  Claim C6 says that each of the three constructors applies the Xavier initialisation
  to its layers and then completes. None of them completes. The estimator and the
  sampler build their layers and then look \<^verbatim>\<open>init_xavier_normal\<close> up on the instance,
  where no attribute and no method of that name exists; the encoder fails earlier, at
  its first convolution.
\<close>

theorem constructors_raise_before_initialisation:
  "ObservationalLikelihoodEstimator_init 128 (4 / 1000) g =
     Inl (AttributeError ''init_xavier_normal'') \<and>
   ActionSampler_init 3 3 None g = Inl (AttributeError ''init_xavier_normal'') \<and>
   (\<exists>e. ObservationalLikelihoodEstimator_init in_feats min_likelihood g = Inl e) \<and>
   (\<exists>e. ActionSampler_init act_dim st_dim noise_dim_arg g = Inl e) \<and>
   (\<exists>e. ObservationalEncoder_init H W in_chans dropout_rate g = Inl e)"
  using ObservationalLikelihoodEstimator_init_default [of g] ActionSampler_init_default [of g]
    ObservationalLikelihoodEstimator_init_fails [of in_feats min_likelihood g]
    ActionSampler_init_fails [of act_dim st_dim noise_dim_arg g]
  by (simp add: ObservationalEncoder_init_def Conv2d_init_def)

text \<open>
  Claim C8. Constructing \<open>DPF_SE2\<close> only runs the constructor of \<^verbatim>\<open>nn.Module\<close>: it
  succeeds and the instance has no attribute and no sub-module, so none of the three
  component networks is part of it.
\<close>

theorem DPF_SE2_has_no_submodules:
  "(DPF_SE2_init :: error + 'a module) = Inr nn_Module_init \<and>
   attrs (nn_Module_init :: 'a module) = [] \<and>
   children (nn_Module_init :: 'a module) = [] \<and>
   getattr_module DPF_SE2_methods (nn_Module_init :: 'a module) ''fc1'' =
     Inl (AttributeError ''fc1'')"
  by (simp add: DPF_SE2_init_def nn_Module_init_def children_def getattr_module_def
      DPF_SE2_methods_def nn_Module_methods_def)

theorem DPF_SE2_has_no_submodules_witness:
  "children (nn_Module_init :: real module) = [] \<and>
   (DPF_SE2_init :: error + real module) = Inr nn_Module_init"
  using DPF_SE2_has_no_submodules [where 'a = real] by simp

section \<open>The action sampler\<close>

subsection \<open>The noise network returns nothing\<close>

lemma generate_motion_noise_None:
  "generate_motion_noise rnd self x = Inr v \<Longrightarrow> v = PyNone"
  unfolding generate_motion_noise_def Let_def
  by (auto simp: and_then_Inr_iff)

lemma detach_None:
  "detach PyNone = Inl (AttributeError ''NoneType object has no attribute detach'')"
  by (simp add: detach_def)

lemma noise_then_detach:
  "\<exists>e. and_then (generate_motion_noise rnd self x) (\<lambda>delta. and_then (detach delta) k) = Inl e"
proof (cases "generate_motion_noise rnd self x")
  case (Inl e)
  then show ?thesis by simp
next
  case (Inr v)
  then have "v = PyNone" by (rule generate_motion_noise_None)
  with Inr show ?thesis by (simp add: detach_None)
qed

lemma ActionSampler_forward_fails:
  "\<exists>e. fst (ActionSampler_forward rnd self actions stds particles g) = Inl e"
  unfolding ActionSampler_forward_def Let_def
  using noise_then_detach
  by (auto split: sum.splits prod.splits)

lemma generate_motion_noise_returns_None:
  assumes ok: "fc_stack_ok self"
    and shp: "\<And>m r. m \<in> set x \<Longrightarrow> r \<in> set m \<Longrightarrow> length r = in_features (fc1 self)"
  shows "generate_motion_noise rnd self x = Inr PyNone"
proof -
  let ?f = "\<lambda>l r. map2 (\<lambda>w b. fadd rnd (dot rnd w r) b) (weight l) (bias l)"
  have l1: "linear_ok (fc1 self)" and l2: "linear_ok (fc2 self)"
    and c12: "out_features (fc1 self) = in_features (fc2 self)"
    and c23: "out_features (fc2 self) = in_features (fc3 self)"
    using ok by (simp_all add: fc_stack_ok_def)
  have s1: "Linear_forward3 rnd (fc1 self) x = Inr (map (map (?f (fc1 self))) x)"
    using shp by (rule Linear_forward3_ok)
  let ?x1 = "relu3 (map (map (?f (fc1 self))) x)"
  have s2: "Linear_forward3 rnd (fc2 self) ?x1 = Inr (map (map (?f (fc2 self))) ?x1)"
    using l1 by (intro Linear_forward3_ok) (auto simp: relu3_def linear_ok_def c12 [symmetric])
  let ?x2 = "relu3 (map (map (?f (fc2 self))) ?x1)"
  have s3: "Linear_forward3 rnd (fc3 self) ?x2 = Inr (map (map (?f (fc3 self))) ?x2)"
    using l2 by (intro Linear_forward3_ok) (auto simp: relu3_def linear_ok_def c23 [symmetric])
  show ?thesis
    unfolding generate_motion_noise_def Let_def by (simp add: s1 s2 s3)
qed

subsection \<open>Shapes on the way to the noise network\<close>

lemma map_gen_shape:
  assumes "\<And>x g. P x (fst (f x g))"
  shows "list_all2 P xs (fst (map_gen f xs g))"
proof (induction xs arbitrary: g)
  case Nil
  then show ?case by simp
next
  case (Cons x xs)
  obtain y g1 where f: "f x g = (y, g1)" by (cases "f x g")
  obtain ys g2 where m: "map_gen f xs g1 = (ys, g2)" by (cases "map_gen f xs g1")
  have "P x y" using assms [of x g] f by simp
  moreover have "list_all2 P xs ys" using Cons [of g1] m by simp
  ultimately show ?case by (simp add: f m)
qed

lemma randn_like_shape:
  "list_all2 (list_all2 (\<lambda>r u. length u = length r)) x (fst (randn_like x g))"
  unfolding randn_like_def
  by (intro map_gen_shape) (simp add: draw_def)

lemma cat_last_rows:
  assumes a: "\<And>m r. m \<in> set a \<Longrightarrow> r \<in> set m \<Longrightarrow> 2 * length r = n"
    and ab: "list_all2 (list_all2 (\<lambda>r u. length u = length r)) a b"
    and m: "m \<in> set (cat_last a b)" and r: "r \<in> set m"
  shows "length r = n"
proof -
  from m obtain ai bi where z: "(ai, bi) \<in> set (zip a b)" and meq: "m = map2 (@) ai bi"
    by (auto simp: cat_last_def)
  from z ab have inner: "list_all2 (\<lambda>r u. length u = length r) ai bi"
    by (auto simp: list_all2_iff)
  from z have ai: "ai \<in> set a" by (rule set_zip_leftD)
  from r meq obtain u v where uv: "(u, v) \<in> set (zip ai bi)" and req: "r = u @ v"
    by auto
  from uv inner have "length v = length u" by (auto simp: list_all2_iff)
  moreover from uv have "u \<in> set ai" by (rule set_zip_leftD)
  then have "2 * length u = n" using a ai by blast
  ultimately show ?thesis using req by simp
qed

lemma normalize_actions_same_length:
  assumes "length actions = length stds"
  shows "normalize_actions rnd actions stds =
         Inr (map2 (\<lambda>row s. map (\<lambda>a. fdiv rnd a s) row) actions stds)"
  unfolding normalize_actions_def bcast_def using assms
  by (simp add: traverse_map [where h = "\<lambda>(row, s). map (\<lambda>a. fdiv rnd a s) row"] split_def)

lemma noise_input_rows:
  assumes rows: "\<And>row. row \<in> set n \<Longrightarrow> 2 * length row = w"
    and m: "m \<in> set (cat_last (expand_particles p n) (fst (randn_like (expand_particles p n) g)))"
    and r: "r \<in> set m"
  shows "length r = w"
proof -
  have "2 * length r' = w" if "m' \<in> set (expand_particles p n)" "r' \<in> set m'" for m' r'
    using that rows by (auto simp: expand_particles_def)
  then show ?thesis using randn_like_shape m r by (rule cat_last_rows)
qed

lemma ActionSampler_forward_fails_at_detach:
  assumes ok: "fc_stack_ok self"
    and len: "length actions = length stds"
    and rows: "\<And>row. row \<in> set actions \<Longrightarrow> 2 * length row = in_features (fc1 self)"
    and rank: "2 \<le> length particles"
  shows "fst (ActionSampler_forward rnd self actions stds particles g) =
         Inl (AttributeError ''NoneType object has no attribute detach'')"
proof -
  let ?n = "map2 (\<lambda>row s. map (\<lambda>a. fdiv rnd a s) row) actions stds"
  let ?e = "expand_particles (particles ! 1) ?n"
  have nrows: "2 * length r = in_features (fc1 self)" if "r \<in> set ?n" for r
  proof -
    from that obtain row s where "(row, s) \<in> set (zip actions stds)"
      and "r = map (\<lambda>a. fdiv rnd a s) row"
      by auto
    then show ?thesis using rows [of row] by (auto dest: set_zip_leftD)
  qed
  have xrows: "length r = in_features (fc1 self)"
    if "m \<in> set (cat_last ?e (fst (randn_like ?e g)))" "r \<in> set m" for m r
    using nrows that by (rule noise_input_rows)
  have gm: "generate_motion_noise rnd self (cat_last ?e (fst (randn_like ?e g))) = Inr PyNone"
    using ok xrows by (rule generate_motion_noise_returns_None)
  have pre: "and_then (normalize_actions rnd actions stds) (\<lambda>actions_normalized.
        and_then (shape_at particles 1) (\<lambda>p.
        Inr (expand_particles p actions_normalized))) = Inr ?e"
    using rank by (simp add: normalize_actions_same_length [OF len] shape_at_def)
  show ?thesis
    unfolding ActionSampler_forward_def Let_def pre
    using gm by (simp add: case_prod_beta detach_None)
qed

text \<open>
  Claim C1. \<open>generate_motion_noise\<close> runs its three layers and hands back \<^verbatim>\<open>None\<close>,
  never a tensor: whenever it completes its value is \<^verbatim>\<open>None\<close>, and it completes
  whenever the layers fit each other and the input. So \<open>delta\<close> in
  \<open>ActionSampler.forward\<close> is not a tensor, and no call of \<open>forward\<close> returns one:
  every call ends in an exception, which for arguments of the documented shapes is the
  failed lookup of \<^verbatim>\<open>detach\<close> on \<^verbatim>\<open>None\<close>.
\<close>

theorem ActionSampler_forward_never_returns:
  "(\<forall>v. generate_motion_noise rnd self x = Inr v \<longrightarrow> v = PyNone) \<and>
   (fc_stack_ok self \<and> (\<forall>m\<in>set x. \<forall>r\<in>set m. length r = in_features (fc1 self)) \<longrightarrow>
      generate_motion_noise rnd self x = Inr PyNone) \<and>
   (\<exists>e. fst (ActionSampler_forward rnd self actions stds particles g) = Inl e) \<and>
   (fc_stack_ok self \<and> length actions = length stds \<and>
    (\<forall>row\<in>set actions. 2 * length row = in_features (fc1 self)) \<and> 2 \<le> length particles \<longrightarrow>
      fst (ActionSampler_forward rnd self actions stds particles g) =
        Inl (AttributeError ''NoneType object has no attribute detach''))"
proof (intro conjI allI impI)
  fix v assume "generate_motion_noise rnd self x = Inr v"
  then show "v = PyNone" by (rule generate_motion_noise_None)
next
  assume "fc_stack_ok self \<and> (\<forall>m\<in>set x. \<forall>r\<in>set m. length r = in_features (fc1 self))"
  then show "generate_motion_noise rnd self x = Inr PyNone"
    by (intro generate_motion_noise_returns_None) auto
next
  show "\<exists>e. fst (ActionSampler_forward rnd self actions stds particles g) = Inl e"
    by (rule ActionSampler_forward_fails)
next
  assume h: "fc_stack_ok self \<and> length actions = length stds \<and>
    (\<forall>row\<in>set actions. 2 * length row = in_features (fc1 self)) \<and> 2 \<le> length particles"
  show "fst (ActionSampler_forward rnd self actions stds particles g) =
        Inl (AttributeError ''NoneType object has no attribute detach'')"
    using h by (intro ActionSampler_forward_fails_at_detach) auto
qed

theorem ActionSampler_forward_never_returns_witness:
  "generate_motion_noise range32 (default_sampler (Fin 1)) [[replicate 6 (Fin 0)]] = Inr PyNone \<and>
   fst (ActionSampler_forward range32 (default_sampler (Fin 1)) [[Fin 1, Fin 2, Fin 3]] [Fin 1]
          [1, 2, 3] (\<lambda>_. 0)) =
     Inl (AttributeError ''NoneType object has no attribute detach'')"
proof -
  have i: "in_features (fc1 (default_sampler (Fin 1))) = 6"
    by (simp add: default_sampler_def constant_linear_def)
  from ActionSampler_forward_never_returns
    [of range32 "default_sampler (Fin 1)" "[[replicate 6 (Fin 0)]]" "[[Fin 1, Fin 2, Fin 3]]"
       "[Fin 1]" "[1, 2, 3]" "\<lambda>_. 0"]
  show ?thesis by (simp add: default_sampler_ok i)
qed

subsection \<open>Normalising the actions\<close>

lemma normalize_actions_rounded_quotients:
  assumes stds: "\<forall>s\<in>set stds. \<exists>b. s = Fin b \<and> b \<noteq> 0"
    and acts: "\<forall>row\<in>set actions. \<forall>a\<in>set row. is_finite a"
    and res: "normalize_actions rnd actions stds = Inr n"
    and row: "row \<in> set n" and v: "v \<in> set row"
  shows "\<exists>a b. b \<noteq> 0 \<and> v = rnd (a / b)"
proof -
  from bcast_Inr_set [OF res [unfolded normalize_actions_def] row]
  obtain arow s where ar: "arow \<in> set actions" and s: "s \<in> set stds"
    and req: "row = map (\<lambda>a. fdiv rnd a s) arow" by auto
  from v req obtain x where x: "x \<in> set arow" and veq: "v = fdiv rnd x s" by auto
  from stds s obtain b where b: "s = Fin b" "b \<noteq> 0" by blast
  from acts ar x have "is_finite x" by blast
  then obtain a where "x = Fin a" by (cases x) auto
  with veq b show ?thesis by auto
qed




subsection \<open>Recentring and adding the noise\<close>

text \<open>
  The two statements after \<^verbatim>\<open>detach\<close> do what their comments say in exact
  arithmetic, on any tensor of finite entries with at least one particle: recentring
  leaves every state component with particle mean zero, and the particle mean of the
  noisy actions is the action.
\<close>

lemma exact_simps [simp]:
  "exact r = Fin r"
  "fadd exact (Fin a) (Fin b) = Fin (a + b)"
  "fsub exact (Fin a) (Fin b) = Fin (a - b)"
  "b \<noteq> 0 \<Longrightarrow> fdiv exact (Fin a) (Fin b) = Fin (a / b)"
  by (simp_all add: exact_def fsub_def)

lemma Fin_value_of: "is_finite v \<Longrightarrow> Fin (value_of v) = v"
  by (cases v) auto

lemma finite_rows_as_real:
  assumes "\<forall>row\<in>set d. \<forall>v\<in>set row. is_finite v"
  shows "d = map (map Fin) (map (map value_of) d)"
  using assms by (auto simp: map_idI Fin_value_of intro!: map_idI [symmetric])

lemma foldr_add_Fin: "foldr (fadd exact) (map Fin xs) (Fin 0) = Fin (sum_list xs)"
  by (induction xs) simp_all

lemma column_of_Fin:
  assumes "\<forall>row\<in>set dr. j < length row"
  shows "map (\<lambda>row. row ! j) (map (map Fin) dr) = map Fin (map (\<lambda>row. row ! j) dr)"
  using assms by simp

lemma map_Fin_cong:
  assumes "\<And>j. j < s \<Longrightarrow> f j = c j"
  shows "map (\<lambda>j. Fin (f j)) [0..<s] = map (\<lambda>j. Fin (c j)) [0..<s]"
  using assms by simp

lemma mean_particles_Fin:
  assumes rect: "\<forall>row\<in>set dr. length row = s" and ne: "dr \<noteq> []"
  shows "mean_particles exact (map (map Fin) dr) =
         map (\<lambda>j. Fin (sum_list (map (\<lambda>row. row ! j) dr) / real (length dr))) [0..<s]"
proof -
  obtain r rs where dr: "dr = r # rs" using ne by (cases dr) auto
  have lr: "length r = s" using rect dr by simp
  have nz: "real (length dr) \<noteq> 0" using ne by simp
  have col: "fdiv exact (foldr (fadd exact) (map (\<lambda>row. row ! j) (map (map Fin) dr)) (Fin 0))
               (exact (real (length dr))) =
        Fin (sum_list (map (\<lambda>row. row ! j) dr) / real (length dr))" if "j < s" for j
  proof -
    have "\<forall>row\<in>set dr. j < length row" using rect that by simp
    then have e: "map (\<lambda>row. row ! j) (map (map Fin) dr) = map Fin (map (\<lambda>row. row ! j) dr)"
      by (rule column_of_Fin)
    have x: "exact (real (length dr)) = Fin (real (length dr))" by (simp add: exact_def)
    show ?thesis unfolding e foldr_add_Fin x by (rule exact_simps(4) [OF nz])
  qed
  have "mean_particles exact (map (map Fin) dr) =
        map (\<lambda>j. fdiv exact (foldr (fadd exact) (map (\<lambda>row. row ! j) (map (map Fin) dr)) (Fin 0))
                   (exact (real (length dr))))
          [0..<s]"
    using dr lr by (simp add: mean_particles_def)
  also have "\<dots> = map (\<lambda>j. Fin (sum_list (map (\<lambda>row. row ! j) dr) / real (length dr))) [0..<s]"
  proof (rule map_cong [OF refl])
    fix j assume "j \<in> set [0..<s]"
    then have "j < s" by simp
    then show "fdiv exact (foldr (fadd exact) (map (\<lambda>row. row ! j) (map (map Fin) dr)) (Fin 0))
               (exact (real (length dr))) =
        Fin (sum_list (map (\<lambda>row. row ! j) dr) / real (length dr))"
      by (rule col)
  qed
  finally show ?thesis .
qed

lemma sub_row_Fin:
  assumes "length rr = s"
  shows "map2 (fsub exact) (map Fin rr) (map (\<lambda>j. Fin (mu j)) [0..<s]) =
         map Fin (map (\<lambda>j. rr ! j - mu j) [0..<s])"
  using assms by (intro nth_equalityI) simp_all

lemma sum_list_shift:
  fixes f :: "'a \<Rightarrow> real"
  shows "sum_list (map (\<lambda>x. f x - c) xs) = sum_list (map f xs) - real (length xs) * c"
  by (induction xs) (simp_all add: algebra_simps)

lemma sum_list_add_const:
  fixes f :: "'a \<Rightarrow> real"
  shows "sum_list (map (\<lambda>x. c + f x) xs) = real (length xs) * c + sum_list (map f xs)"
  by (induction xs) (simp_all add: algebra_simps)

lemma recenter_real_form:
  assumes rect: "\<forall>row\<in>set d. length row = s"
    and fin: "\<forall>row\<in>set d. \<forall>v\<in>set row. is_finite v"
    and ne: "d \<noteq> []"
  shows "\<exists>dr. map (\<lambda>row. map2 (fsub exact) row (mean_particles exact d)) d = map (map Fin) dr \<and>
           (\<forall>row\<in>set dr. length row = s) \<and> dr \<noteq> [] \<and> length dr = length d \<and>
           (\<forall>j<s. sum_list (map (\<lambda>row. row ! j) dr) = 0)"
proof -
  define dr where "dr = map (map value_of) d"
  have d: "d = map (map Fin) dr" unfolding dr_def using fin by (rule finite_rows_as_real)
  have rect': "\<forall>row\<in>set dr. length row = s" unfolding dr_def using rect by simp
  have ne': "dr \<noteq> []" unfolding dr_def using ne by simp
  define mu where "mu = (\<lambda>j. sum_list (map (\<lambda>row. row ! j) dr) / real (length dr))"
  have m: "mean_particles exact d = map (\<lambda>j. Fin (mu j)) [0..<s]"
    unfolding d mu_def using rect' ne' by (rule mean_particles_Fin)
  define dr' where "dr' = map (\<lambda>rr. map (\<lambda>j. rr ! j - mu j) [0..<s]) dr"
  have step: "map (\<lambda>row. map2 (fsub exact) row (mean_particles exact d)) d = map (map Fin) dr'"
    unfolding m unfolding d dr'_def using rect' by (simp add: sub_row_Fin)
  have rect'': "\<forall>row\<in>set dr'. length row = s" unfolding dr'_def by simp
  have ne'': "dr' \<noteq> []" unfolding dr'_def using ne' by simp
  have len: "length dr' = length d" unfolding dr'_def dr_def by simp
  have zero: "sum_list (map (\<lambda>row. row ! j) dr') = 0" if "j < s" for j
  proof -
    have "map (\<lambda>row. row ! j) dr' = map (\<lambda>rr. rr ! j - mu j) dr"
      unfolding dr'_def using that by simp
    then have "sum_list (map (\<lambda>row. row ! j) dr') =
               sum_list (map (\<lambda>rr. rr ! j) dr) - real (length dr) * mu j"
      by (simp add: sum_list_shift)
    also have "\<dots> = 0" using ne' by (simp add: mu_def)
    finally show ?thesis .
  qed
  show ?thesis using step rect'' ne'' len zero by blast
qed

lemma recenter_zero_mean:
  assumes rect: "\<forall>row\<in>set d. length row = s"
    and fin: "\<forall>row\<in>set d. \<forall>v\<in>set row. is_finite v"
    and ne: "d \<noteq> []"
    and mem: "d' \<in> set (recenter exact [d])"
  shows "mean_particles exact d' = replicate s (Fin 0)"
proof -
  from recenter_real_form [OF rect fin ne] obtain dr
    where step: "map (\<lambda>row. map2 (fsub exact) row (mean_particles exact d)) d = map (map Fin) dr"
      and rect': "\<forall>row\<in>set dr. length row = s" and ne': "dr \<noteq> []"
      and zero: "\<forall>j<s. sum_list (map (\<lambda>row. row ! j) dr) = 0"
    by blast
  have d': "d' = map (map Fin) dr" using mem step by (simp add: recenter_def)
  have "mean_particles exact (map (map Fin) dr) =
        map (\<lambda>j. Fin (sum_list (map (\<lambda>row. row ! j) dr) / real (length dr))) [0..<s]"
    using rect' ne' by (rule mean_particles_Fin)
  also have "\<dots> = map (\<lambda>j. Fin 0) [0..<s]"
    by (rule map_Fin_cong) (simp add: zero)
  also have "\<dots> = replicate s (Fin 0)" by (simp add: map_replicate_const)
  finally show ?thesis unfolding d' .
qed

lemma add_row_Fin:
  assumes "length ar = s" "length rr = s"
  shows "bcast (\<lambda>a e. Inr (fadd exact a e)) (map Fin ar) (map Fin rr) =
         Inr (map Fin (map (\<lambda>j. ar ! j + rr ! j) [0..<s]))"
proof -
  have "map2 (fadd exact) (map Fin ar) (map Fin rr) =
        map Fin (map (\<lambda>j. ar ! j + rr ! j) [0..<s])"
    using assms by (intro nth_equalityI) simp_all
  moreover have "traverse (\<lambda>(x, y). Inr (fadd exact x y)) (zip (map Fin ar) (map Fin rr)) =
        Inr (map (\<lambda>(x, y). fadd exact x y) (zip (map Fin ar) (map Fin rr)))"
    by (rule traverse_map) auto
  ultimately show ?thesis using assms by (simp add: bcast_def)
qed

lemma bcast_singletons:
  "bcast f [x] [y] = (case f x y of Inl e \<Rightarrow> Inl e | Inr z \<Rightarrow> Inr [z])"
  by (simp add: bcast_def split: sum.splits)

lemma noisy_mean_is_action:
  assumes rect: "\<forall>row\<in>set d. length row = s"
    and fin: "\<forall>row\<in>set d. \<forall>v\<in>set row. is_finite v"
    and ne: "d \<noteq> []"
    and lar: "length ar = s"
  shows "\<exists>nz. add_noise exact [map Fin ar] (recenter exact [d]) = Inr [nz] \<and>
              length nz = length d \<and> mean_particles exact nz = map Fin ar"
proof -
  from recenter_real_form [OF rect fin ne] obtain dr
    where step: "map (\<lambda>row. map2 (fsub exact) row (mean_particles exact d)) d = map (map Fin) dr"
      and rect': "\<forall>row\<in>set dr. length row = s" and ne': "dr \<noteq> []"
      and lend: "length dr = length d"
      and zero: "\<forall>j<s. sum_list (map (\<lambda>row. row ! j) dr) = 0"
    by blast
  define nr where "nr = map (\<lambda>rr. map (\<lambda>j. ar ! j + rr ! j) [0..<s]) dr"
  have tr: "traverse (\<lambda>drow. bcast (\<lambda>a e. Inr (fadd exact a e)) (map Fin ar) drow)
              (map (map Fin) dr) =
        Inr (map (\<lambda>drow. map Fin (map (\<lambda>j. ar ! j + value_of (drow ! j)) [0..<s]))
               (map (map Fin) dr))"
  proof (rule traverse_map)
    fix x assume "x \<in> set (map (map Fin) dr)"
    then obtain rr where rr: "rr \<in> set dr" "x = map Fin rr" by auto
    then have lrr: "length rr = s" using rect' by simp
    have "map (\<lambda>j. ar ! j + rr ! j) [0..<s] =
          map (\<lambda>j. ar ! j + value_of (map Fin rr ! j)) [0..<s]"
      using lrr by simp
    then show "bcast (\<lambda>a e. Inr (fadd exact a e)) (map Fin ar) x =
         Inr (map Fin (map (\<lambda>j. ar ! j + value_of (x ! j)) [0..<s]))"
      unfolding rr(2) using add_row_Fin [OF lar lrr] by simp
  qed
  have nreq: "map (\<lambda>drow. map Fin (map (\<lambda>j. ar ! j + value_of (drow ! j)) [0..<s]))
                (map (map Fin) dr) = map (map Fin) nr"
    unfolding nr_def using rect' by simp
  have rectn: "\<forall>row\<in>set nr. length row = s" unfolding nr_def by simp
  have nen: "nr \<noteq> []" unfolding nr_def using ne' by simp
  have lenn: "length nr = length dr" unfolding nr_def by simp
  have nz: "real (length dr) \<noteq> 0" using ne' by simp
  have col: "sum_list (map (\<lambda>row. row ! j) nr) / real (length nr) = ar ! j" if "j < s" for j
  proof -
    have "map (\<lambda>row. row ! j) nr = map (\<lambda>rr. ar ! j + rr ! j) dr"
      unfolding nr_def using that by simp
    then have "sum_list (map (\<lambda>row. row ! j) nr) =
          real (length dr) * ar ! j + sum_list (map (\<lambda>rr. rr ! j) dr)"
      by (simp add: sum_list_add_const)
    then show ?thesis using zero that nz by (simp add: lenn)
  qed
  have "mean_particles exact (map (map Fin) nr) =
        map (\<lambda>j. Fin (sum_list (map (\<lambda>row. row ! j) nr) / real (length nr))) [0..<s]"
    using rectn nen by (rule mean_particles_Fin)
  also have "\<dots> = map (\<lambda>j. Fin (ar ! j)) [0..<s]"
    by (rule map_Fin_cong) (rule col)
  also have "\<dots> = map Fin ar"
    using lar by (intro nth_equalityI) simp_all
  finally have mean: "mean_particles exact (map (map Fin) nr) = map Fin ar" .
  have "add_noise exact [map Fin ar] (recenter exact [d]) = Inr [map (map Fin) nr]"
    unfolding add_noise_def recenter_def list.map bcast_singletons step tr nreq by simp
  moreover have "length (map (map Fin) nr) = length d" using lenn lend by simp
  ultimately show ?thesis using mean by blast
qed

text \<open>
  Claim C4 says that after the recentring step of \<open>ActionSampler.forward\<close> the noise of
  the output has particle mean zero. The arithmetic of the step is right
  (\<open>recenter_zero_mean\<close>), but no call reaches it: the noise network has handed back
  \<^verbatim>\<open>None\<close> and the call has stopped at \<^verbatim>\<open>detach\<close>, here for one sample with the
  action \<open>(1, 2, 3)\<close>, scale 1 and two particles.
\<close>

theorem recentring_is_never_reached:
  "fst (ActionSampler_forward rnd (default_sampler (Fin 1)) [[Fin 1, Fin 2, Fin 3]] [Fin 1]
          [1, 2, 3] g) =
     Inl (AttributeError ''NoneType object has no attribute detach'')"
proof -
  have "in_features (fc1 (default_sampler (Fin 1))) = 6"
    by (simp add: default_sampler_def constant_linear_def)
  then show ?thesis
    by (intro ActionSampler_forward_fails_at_detach default_sampler_ok) simp_all
qed

text \<open>
  Claim C5 says that \<open>ActionSampler.forward\<close> returns the action plus zero-mean noise,
  so that the particle mean of the output is the action. The last two statements
  would deliver that (\<open>noisy_mean_is_action\<close>), but no call returns: here two samples
  with nonzero scales 2 and 4 and five particles end at \<^verbatim>\<open>detach\<close> as well.
\<close>

theorem noisy_actions_are_never_returned:
  "fst (ActionSampler_forward rnd (default_sampler (Fin 0))
          [[Fin 2, Fin 4, Fin 6], [Fin 4, Fin 8, Fin 12]] [Fin 2, Fin 4] [2, 5, 3] g) =
     Inl (AttributeError ''NoneType object has no attribute detach'')"
proof -
  have "in_features (fc1 (default_sampler (Fin 0))) = 6"
    by (simp add: default_sampler_def constant_linear_def)
  then show ?thesis
    by (intro ActionSampler_forward_fails_at_detach default_sampler_ok) auto
qed

end
